theory Spec2Isabelle
  imports Complex_Main
begin

section \<open>Linear regression from scratch: the arrays\<close>

text \<open>
  The notebook \<^verbatim>\<open>lr.ipynb\<close> works on numpy arrays of double-precision numbers. The
  numbers are taken here as exact reals, which numpy's are not: it rounds every result,
  overflows to infinity and NaN, and wraps around on arrays of integers. So the theorems
  below say which computation runs, on which shapes, in which order and which error ends
  it; the one statement about the value of a result is the notebook's own example, whose
  tolerance covers the rounding. Nothing is stated about the sign or the size of a
  computed number, nor about what the inversion routine does with a matrix that is
  singular or close to it.

  A one-dimensional array is a list; a two-dimensional array carries its shape, since numpy
  keeps the column count of an array with no rows (and the row count of one with no
  columns).
\<close>

datatype error = ValueError | LinAlgError | ZeroDivisionError | IndexError

type_synonym ndarray1 = "real list"

record ndarray2 =
  shape0 :: nat
  shape1 :: nat
  rows :: "real list list"

text \<open>The arrays numpy can build: as many rows as the shape says, each of the stated width.\<close>

definition rectangular :: "ndarray2 \<Rightarrow> bool" where
  "rectangular A \<longleftrightarrow>
     length (rows A) = shape0 A \<and> list_all (\<lambda>r. length r = shape1 A) (rows A)"

definition array2 :: "real list list \<Rightarrow> ndarray2" where
  \<comment> \<open>\<^verbatim>\<open>np.array([[..], ..])\<close> on a literal with at least one row\<close>
  "array2 rs =
     \<lparr>shape0 = length rs, shape1 = (case rs of [] \<Rightarrow> 0 | r # _ \<Rightarrow> length r), rows = rs\<rparr>"

definition bind :: "error + 'a \<Rightarrow> ('a \<Rightarrow> error + 'b) \<Rightarrow> error + 'b" where
  "bind m f = (case m of Inl e \<Rightarrow> Inl e | Inr v \<Rightarrow> f v)"

subsection \<open>The numpy operations the notebook calls\<close>

definition np_ones :: "nat \<Rightarrow> ndarray1" where
  "np_ones n = replicate n 1"

definition np_zeros :: "int \<Rightarrow> error + ndarray1" where
  \<comment> \<open>a negative dimension is refused\<close>
  "np_zeros n = (if n < 0 then Inl ValueError else Inr (replicate (nat n) 0))"

definition column_stack :: "ndarray1 \<Rightarrow> ndarray2 \<Rightarrow> error + ndarray2" where
  \<comment> \<open>\<^verbatim>\<open>np.column_stack([v, A])\<close>: the vector becomes the first column\<close>
  "column_stack v A =
     (if length v \<noteq> shape0 A then Inl ValueError
      else Inr \<lparr>shape0 = shape0 A, shape1 = Suc (shape1 A),
                rows = map2 (#) v (rows A)\<rparr>)"

definition col :: "ndarray2 \<Rightarrow> nat \<Rightarrow> real list" where
  "col A j = map (\<lambda>r. r ! j) (rows A)"

definition cols :: "ndarray2 \<Rightarrow> real list list" where
  "cols A = map (col A) [0..<shape1 A]"

definition T :: "ndarray2 \<Rightarrow> ndarray2" where
  \<comment> \<open>\<^verbatim>\<open>A.T\<close>\<close>
  "T A = \<lparr>shape0 = shape1 A, shape1 = shape0 A, rows = cols A\<rparr>"

definition inner :: "real list \<Rightarrow> real list \<Rightarrow> real" where
  "inner a b = sum_list (map2 (*) a b)"

definition dot_mv :: "ndarray2 \<Rightarrow> ndarray1 \<Rightarrow> error + ndarray1" where
  \<comment> \<open>\<^verbatim>\<open>A.dot(v)\<close>, \<open>A\<close> two-dimensional and \<open>v\<close> one-dimensional\<close>
  "dot_mv A v =
     (if shape1 A \<noteq> length v then Inl ValueError
      else Inr (map (\<lambda>r. inner r v) (rows A)))"

definition dot_mm :: "ndarray2 \<Rightarrow> ndarray2 \<Rightarrow> error + ndarray2" where
  \<comment> \<open>\<^verbatim>\<open>A.dot(B)\<close>, both two-dimensional\<close>
  "dot_mm A B =
     (if shape1 A \<noteq> shape0 B then Inl ValueError
      else Inr \<lparr>shape0 = shape0 A, shape1 = shape1 B,
                rows = map (\<lambda>r. map (inner r) (cols B)) (rows A)\<rparr>)"

definition sub :: "ndarray1 \<Rightarrow> ndarray1 \<Rightarrow> error + ndarray1" where
  \<comment> \<open>\<^verbatim>\<open>a - b\<close> with numpy's broadcasting: an array of length one stretches\<close>
  "sub a b =
     (if length a = length b then Inr (map2 (-) a b)
      else if length a = 1 then Inr (map (\<lambda>x. hd a - x) b)
      else if length b = 1 then Inr (map (\<lambda>x. x - hd b) a)
      else Inl ValueError)"

definition smul :: "real \<Rightarrow> ndarray1 \<Rightarrow> ndarray1" where
  \<comment> \<open>\<^verbatim>\<open>c * a\<close>, \<open>c\<close> a scalar\<close>
  "smul c a = map ((*) c) a"

definition np_square :: "ndarray1 \<Rightarrow> ndarray1" where
  "np_square a = map (\<lambda>x. x * x) a"

definition np_sum :: "ndarray1 \<Rightarrow> real" where
  "np_sum a = sum_list a"

definition py_recip :: "nat \<Rightarrow> error + real" where
  \<comment> \<open>\<^verbatim>\<open>1/k\<close> on a Python integer\<close>
  "py_recip k = (if k = 0 then Inl ZeroDivisionError else Inr (1 / real k))"

subsection \<open>Matrix inversion\<close>

text \<open>
  \<^verbatim>\<open>np.linalg.inv\<close> refuses an array that is not square. On a square one it factorises in
  double precision, raises \<^verbatim>\<open>LinAlgError\<close> when a computed pivot is exactly zero and returns
  the inverse up to rounding otherwise. The function \<open>inv\<close> below is the routine without
  the rounding: Gauss-Jordan elimination over the reals on the rows of \<open>[A | I]\<close>, the rows
  that already hold a pivot kept apart from the rows still to be searched. It agrees with
  numpy up to rounding on a well-conditioned matrix, such as the one of the notebook's
  example, and is used for that example only.
\<close>

type_synonym arow = "real list \<times> real list"

definition unit_vec :: "nat \<Rightarrow> nat \<Rightarrow> real list" where
  "unit_vec n i = map (\<lambda>j. if j = i then 1 else 0) [0..<n]"

definition eye :: "nat \<Rightarrow> ndarray2" where
  "eye n = \<lparr>shape0 = n, shape1 = n, rows = map (unit_vec n) [0..<n]\<rparr>"

fun find_pivot :: "nat \<Rightarrow> arow list \<Rightarrow> (arow \<times> arow list) option" where
  "find_pivot k [] = None"
| "find_pivot k (r # rs) =
     (if fst r ! k \<noteq> 0 then Some (r, rs)
      else (case find_pivot k rs of
              None \<Rightarrow> None
            | Some (p, rs') \<Rightarrow> Some (p, r # rs')))"

definition scale_row :: "real \<Rightarrow> arow \<Rightarrow> arow" where
  "scale_row c r = (map ((*) c) (fst r), map ((*) c) (snd r))"

definition eliminate :: "nat \<Rightarrow> arow \<Rightarrow> arow \<Rightarrow> arow" where
  \<comment> \<open>clear column \<open>k\<close> of row \<open>r\<close> with the normalised pivot row \<open>p\<close>\<close>
  "eliminate k p r =
     (map2 (\<lambda>x y. x - fst r ! k * y) (fst r) (fst p),
      map2 (\<lambda>x y. x - fst r ! k * y) (snd r) (snd p))"

fun gauss_jordan :: "nat \<Rightarrow> nat \<Rightarrow> arow list \<Rightarrow> arow list \<Rightarrow> arow list option" where
  "gauss_jordan 0 k done rest = Some done"
| "gauss_jordan (Suc c) k done rest =
     (case find_pivot k rest of
        None \<Rightarrow> None
      | Some (p, rest') \<Rightarrow>
          (let q = scale_row (1 / fst p ! k) p
           in gauss_jordan c (Suc k) (map (eliminate k q) done @ [q])
                (map (eliminate k q) rest')))"

definition inv :: "ndarray2 \<Rightarrow> error + ndarray2" where
  "inv A =
     (if shape0 A \<noteq> shape1 A then Inl LinAlgError
      else (case gauss_jordan (shape0 A) 0 [] (zip (rows A) (rows (eye (shape0 A)))) of
              None \<Rightarrow> Inl LinAlgError
            | Some d \<Rightarrow> Inr \<lparr>shape0 = shape0 A, shape1 = shape0 A, rows = map snd d\<rparr>))"

section \<open>The notebook's functions\<close>

subsection \<open>Normal equation\<close>

definition multiple_linear_regression :: "ndarray2 \<Rightarrow> ndarray1 \<Rightarrow> error + ndarray1" where
  "multiple_linear_regression X y =
     (let ones = np_ones (shape0 X) in
      bind (column_stack ones X) (\<lambda>X.
      bind (dot_mm (T X) X) (\<lambda>XtX.
      bind (inv XtX) (\<lambda>XtX_inv.
      bind (dot_mm XtX_inv (T X)) (\<lambda>P.
      dot_mv P y)))))"

text \<open>
  The same function with the inversion routine left open, for the statements that hold
  whatever the routine does in double precision.
\<close>

definition multiple_linear_regression_with ::
  "(ndarray2 \<Rightarrow> error + ndarray2) \<Rightarrow> ndarray2 \<Rightarrow> ndarray1 \<Rightarrow> error + ndarray1" where
  "multiple_linear_regression_with linalg_inv X y =
     (let ones = np_ones (shape0 X) in
      bind (column_stack ones X) (\<lambda>X.
      bind (dot_mm (T X) X) (\<lambda>XtX.
      bind (linalg_inv XtX) (\<lambda>XtX_inv.
      bind (dot_mm XtX_inv (T X)) (\<lambda>P.
      dot_mv P y)))))"

definition predict :: "ndarray2 \<Rightarrow> ndarray1 \<Rightarrow> error + ndarray1" where
  "predict X beta =
     (let ones = np_ones (shape0 X) in
      bind (column_stack ones X) (\<lambda>X. dot_mv X beta))"

subsection \<open>Gradient descent\<close>

text \<open>
  The cost is a real number here. In double precision it is infinite or NaN after an
  overflow, and on arrays of integers numpy wraps around, so no theorem below speaks of
  its sign.
\<close>

definition compute_cost :: "ndarray2 \<Rightarrow> ndarray1 \<Rightarrow> ndarray1 \<Rightarrow> error + real" where
  "compute_cost X y theta =
     (let m = length y in
      bind (dot_mv X theta) (\<lambda>predictions.
      bind (py_recip (2 * m)) (\<lambda>c.
      bind (sub predictions y) (\<lambda>d.
      Inr (c * np_sum (np_square d))))))"

definition gd_body ::
  "ndarray2 \<Rightarrow> ndarray1 \<Rightarrow> real \<Rightarrow> nat \<Rightarrow> nat \<Rightarrow> ndarray1 \<times> ndarray1
     \<Rightarrow> error + (ndarray1 \<times> ndarray1)" where
  \<comment> \<open>one pass of the loop body, at index \<open>i\<close>, on \<open>(theta, cost_history)\<close>\<close>
  "gd_body X y alpha m i s =
     (case s of (theta, cost_history) \<Rightarrow>
      bind (py_recip m) (\<lambda>c.
      bind (dot_mv X theta) (\<lambda>p.
      bind (sub p y) (\<lambda>d.
      bind (dot_mv (T X) d) (\<lambda>g.
      (let gradients = smul c g in
       bind (sub theta (smul alpha gradients)) (\<lambda>theta.
       bind (compute_cost X y theta) (\<lambda>cost.
       if i < length cost_history then Inr (theta, cost_history[i := cost])
       else Inl IndexError))))))))"

fun gd_loop ::
  "ndarray2 \<Rightarrow> ndarray1 \<Rightarrow> real \<Rightarrow> nat \<Rightarrow> nat list \<Rightarrow> ndarray1 \<times> ndarray1
     \<Rightarrow> error + (ndarray1 \<times> ndarray1)" where
  "gd_loop X y alpha m [] s = Inr s"
| "gd_loop X y alpha m (i # is) s =
     bind (gd_body X y alpha m i s) (gd_loop X y alpha m is)"

definition gradient_descent ::
  "ndarray2 \<Rightarrow> ndarray1 \<Rightarrow> real \<Rightarrow> int \<Rightarrow> error + (ndarray1 \<times> ndarray1)" where
  "gradient_descent X y alpha num_iterations =
     (let m = length y in
      bind (np_zeros num_iterations) (\<lambda>cost_history.
      (let ones = np_ones (shape0 X) in
       bind (column_stack ones X) (\<lambda>X.
       bind (np_zeros (int (shape1 X))) (\<lambda>theta.
       gd_loop X y alpha m [0..<nat num_iterations] (theta, cost_history))))))"

definition predict_gd :: "ndarray2 \<Rightarrow> ndarray1 \<Rightarrow> error + ndarray1" where
  \<comment> \<open>the second \<^verbatim>\<open>predict\<close>, defined in the gradient-descent cell\<close>
  "predict_gd X theta =
     (let ones = np_ones (shape0 X) in
      bind (column_stack ones X) (\<lambda>X. dot_mv X theta))"

subsection \<open>The bias column\<close>

text \<open>
  Every function of the notebook starts with the same two lines, which put a column of ones
  in front of the features.
\<close>

definition augment :: "ndarray2 \<Rightarrow> error + ndarray2" where
  "augment X = (let ones = np_ones (shape0 X) in column_stack ones X)"

section \<open>The specification's formulas\<close>

text \<open>
  The design matrix, the prediction \<open>X\<theta>\<close>, the full-batch gradient
  \<open>(1/m) X\<^sup>T (X\<theta> - y)\<close>, the update \<open>\<theta> - \<alpha> g\<close> and the cost
  \<open>(1/(2m)) \<Sum> (X\<theta> - y)\<^sup>2\<close>, written entry by entry with sums over all \<open>m\<close>
  samples and all coefficients.
\<close>

definition design :: "ndarray2 \<Rightarrow> real list list" where
  "design F = map (\<lambda>r. 1 # r) (rows F)"

definition spec_prediction :: "real list list \<Rightarrow> real list \<Rightarrow> nat \<Rightarrow> real" where
  "spec_prediction Xs theta i = (\<Sum>k\<leftarrow>[0..<length theta]. Xs ! i ! k * theta ! k)"

definition spec_gradient :: "real list list \<Rightarrow> real list \<Rightarrow> real list \<Rightarrow> real list" where
  "spec_gradient Xs y theta =
     map (\<lambda>j. (1 / real (length y)) *
               (\<Sum>i\<leftarrow>[0..<length y]. Xs ! i ! j * (spec_prediction Xs theta i - y ! i)))
       [0..<length theta]"

definition spec_step :: "real list list \<Rightarrow> real list \<Rightarrow> real \<Rightarrow> real list \<Rightarrow> real list" where
  "spec_step Xs y alpha theta =
     map (\<lambda>j. theta ! j - alpha * spec_gradient Xs y theta ! j) [0..<length theta]"

definition spec_cost :: "real list list \<Rightarrow> real list \<Rightarrow> real list \<Rightarrow> real" where
  "spec_cost Xs y theta =
     (1 / (2 * real (length y))) *
     (\<Sum>i\<leftarrow>[0..<length y]. (spec_prediction Xs theta i - y ! i)\<^sup>2)"

definition spec_theta :: "ndarray2 \<Rightarrow> real list \<Rightarrow> real \<Rightarrow> nat \<Rightarrow> real list" where
  \<comment> \<open>the coefficients after \<open>k\<close> updates, from the zero vector\<close>
  "spec_theta F y alpha k =
     (spec_step (design F) y alpha ^^ k) (replicate (Suc (shape1 F)) 0)"

section \<open>Arrays behind references\<close>












section \<open>Basic facts about the array operations\<close>

lemma inner_nth:
  "length a = length b \<Longrightarrow> inner a b = (\<Sum>i\<leftarrow>[0..<length b]. a ! i * b ! i)"
proof -
  assume l: "length a = length b"
  have "map2 (*) a b = map (\<lambda>i. a ! i * b ! i) [0..<length b]"
    by (rule nth_equalityI) (simp_all add: l)
  then show ?thesis by (simp add: inner_def)
qed

lemma rectangular_row:
  "rectangular X \<Longrightarrow> i < shape0 X \<Longrightarrow> length (rows X ! i) = shape1 X"
  by (simp add: rectangular_def list_all_length)

lemma map2_replicate_Cons:
  "length rs = n \<Longrightarrow> map2 (#) (replicate n x) rs = map ((#) x) rs"
  by (induction rs arbitrary: n) auto

lemma column_stack_ones:
  "rectangular A \<Longrightarrow>
   column_stack (np_ones (shape0 A)) A
     = Inr \<lparr>shape0 = shape0 A, shape1 = Suc (shape1 A), rows = design A\<rparr>"
  by (simp add: column_stack_def np_ones_def rectangular_def map2_replicate_Cons design_def)

lemma rectangular_design:
  "rectangular A \<Longrightarrow>
   rectangular \<lparr>shape0 = shape0 A, shape1 = Suc (shape1 A), rows = design A\<rparr>"
  by (simp add: rectangular_def list_all_iff design_def)

lemma dot_mv_spec:
  assumes "rectangular X" "shape1 X = length theta"
  shows "dot_mv X theta = Inr (map (spec_prediction (rows X) theta) [0..<shape0 X])"
proof -
  have "map (\<lambda>r. inner r theta) (rows X) = map (spec_prediction (rows X) theta) [0..<shape0 X]"
    using assms
    by (intro nth_equalityI)
      (simp_all add: rectangular_def list_all_length inner_nth spec_prediction_def)
  with assms show ?thesis by (simp add: dot_mv_def)
qed

lemma sub_same:
  "length a = length b \<Longrightarrow> sub a b = Inr (map (\<lambda>i. a ! i - b ! i) [0..<length b])"
  unfolding sub_def by (simp, intro nth_equalityI) simp_all

lemma dot_mv_T:
  assumes "rectangular X" "shape0 X = length d"
  shows "dot_mv (T X) d
         = Inr (map (\<lambda>j. \<Sum>i\<leftarrow>[0..<length d]. rows X ! i ! j * d ! i) [0..<shape1 X])"
proof -
  have "inner (col X j) d = (\<Sum>i\<leftarrow>[0..<length d]. rows X ! i ! j * d ! i)" for j
  proof -
    have "length (col X j) = length d"
      using assms by (simp add: col_def rectangular_def)
    then have "inner (col X j) d = (\<Sum>i\<leftarrow>[0..<length d]. col X j ! i * d ! i)"
      by (rule inner_nth)
    also have "\<dots> = (\<Sum>i\<leftarrow>[0..<length d]. rows X ! i ! j * d ! i)"
      using assms
      by (intro arg_cong[where f=sum_list] map_cong) (simp_all add: col_def rectangular_def)
    finally show ?thesis .
  qed
  with assms show ?thesis by (simp add: dot_mv_def T_def cols_def)
qed

section \<open>Gradient descent computes the specification's iteration\<close>

lemma length_spec_step [simp]: "length (spec_step Xs y alpha theta) = length theta"
  by (simp add: spec_step_def)

lemma length_spec_iter [simp]: "length ((spec_step Xs y alpha ^^ k) theta) = length theta"
  by (induction k) simp_all

lemma compute_cost_spec:
  assumes "rectangular X" "shape1 X = length theta" "shape0 X = length y" "0 < length y"
  shows "compute_cost X y theta = Inr (spec_cost (rows X) y theta)"
proof -
  have "sum_list (map (\<lambda>x. x * x)
          (map (\<lambda>i. map (spec_prediction (rows X) theta) [0..<length y] ! i - y ! i)
             [0..<length y]))
      = (\<Sum>i\<leftarrow>[0..<length y]. (spec_prediction (rows X) theta i - y ! i)\<^sup>2)"
    unfolding map_map
    by (intro arg_cong[where f=sum_list] map_cong) (simp_all add: power2_eq_square)
  with assms show ?thesis
    by (simp add: compute_cost_def dot_mv_spec sub_same bind_def py_recip_def spec_cost_def
        Let_def np_sum_def np_square_def)
qed

lemma gd_body_spec:
  assumes "rectangular X" "shape1 X = length theta" "shape0 X = length y" "0 < length y"
    "i < length ch"
  shows "gd_body X y alpha (length y) i (theta, ch)
         = Inr (spec_step (rows X) y alpha theta,
                ch[i := spec_cost (rows X) y (spec_step (rows X) y alpha theta)])"
proof -
  let ?p = "map (spec_prediction (rows X) theta) [0..<length y]"
  let ?d = "map (\<lambda>i. ?p ! i - y ! i) [0..<length y]"
  let ?g = "map (\<lambda>j. \<Sum>i\<leftarrow>[0..<length y]. rows X ! i ! j * ?d ! i) [0..<length theta]"
  let ?G = "spec_gradient (rows X) y theta"
  let ?th = "spec_step (rows X) y alpha theta"
  have p: "dot_mv X theta = Inr ?p"
    using assms by (simp add: dot_mv_spec)
  have d: "sub ?p y = Inr ?d"
    by (simp add: sub_same)
  have g: "dot_mv (T X) ?d = Inr ?g"
    using dot_mv_T[of X ?d] assms by simp
  have grad: "smul (1 / real (length y)) ?g = ?G"
  proof -
    have "(\<Sum>i\<leftarrow>[0..<length y]. rows X ! i ! j * ?d ! i)
        = (\<Sum>i\<leftarrow>[0..<length y].
             rows X ! i ! j * (spec_prediction (rows X) theta i - y ! i))" for j
      by (intro arg_cong[where f=sum_list] map_cong) simp_all
    then show ?thesis by (simp add: smul_def spec_gradient_def)
  qed
  have lg: "length ?G = length theta"
    by (simp add: spec_gradient_def)
  have upd: "sub theta (smul alpha ?G) = Inr ?th"
  proof -
    have "sub theta (smul alpha ?G)
        = Inr (map (\<lambda>j. theta ! j - smul alpha ?G ! j) [0..<length theta])"
      using sub_same[of theta "smul alpha ?G"] lg by (simp add: smul_def)
    also have "map (\<lambda>j. theta ! j - smul alpha ?G ! j) [0..<length theta] = ?th"
      unfolding spec_step_def using lg by (intro map_cong) (simp_all add: smul_def)
    finally show ?thesis .
  qed
  have c: "compute_cost X y ?th = Inr (spec_cost (rows X) y ?th)"
    using assms by (simp add: compute_cost_spec)
  show ?thesis
    using assms(4,5) by (simp add: gd_body_def bind_def py_recip_def p d g grad upd c Let_def)
qed

lemma gd_loop_spec:
  assumes X: "rectangular X" "shape0 X = length y" "0 < length y"
  shows "shape1 X = length theta \<Longrightarrow> d = b - a \<Longrightarrow> a \<le> b \<Longrightarrow> b \<le> length ch \<Longrightarrow>
     \<exists>ch'. gd_loop X y alpha (length y) [a..<b] (theta, ch)
             = Inr ((spec_step (rows X) y alpha ^^ (b - a)) theta, ch') \<and>
           length ch' = length ch \<and>
           (\<forall>i<length ch. ch' ! i =
              (if a \<le> i \<and> i < b
               then spec_cost (rows X) y ((spec_step (rows X) y alpha ^^ Suc (i - a)) theta)
               else ch ! i))"
proof (induction d arbitrary: a theta ch)
  case 0
  then show ?case by simp
next
  case (Suc d)
  let ?st = "spec_step (rows X) y alpha"
  let ?th = "?st theta"
  let ?ch = "ch[a := spec_cost (rows X) y ?th]"
  from Suc.prems have ab: "a < b" by simp
  then have upt: "[a..<b] = a # [Suc a..<b]" by (simp add: upt_conv_Cons)
  have body: "gd_body X y alpha (length y) a (theta, ch) = Inr (?th, ?ch)"
    using X Suc.prems(1) Suc.prems(4) ab by (simp add: gd_body_spec)
  have "\<exists>ch'. gd_loop X y alpha (length y) [Suc a..<b] (?th, ?ch)
             = Inr ((?st ^^ (b - Suc a)) ?th, ch') \<and>
           length ch' = length ?ch \<and>
           (\<forall>i<length ?ch. ch' ! i =
              (if Suc a \<le> i \<and> i < b
               then spec_cost (rows X) y ((?st ^^ Suc (i - Suc a)) ?th)
               else ?ch ! i))"
    using Suc.prems ab by (intro Suc.IH) simp_all
  then obtain ch' where
    run: "gd_loop X y alpha (length y) [Suc a..<b] (?th, ?ch)
            = Inr ((?st ^^ (b - Suc a)) ?th, ch')"
    and len: "length ch' = length ch"
    and nth: "\<And>i. i < length ch \<Longrightarrow> ch' ! i =
              (if Suc a \<le> i \<and> i < b
               then spec_cost (rows X) y ((?st ^^ Suc (i - Suc a)) ?th)
               else ?ch ! i)"
    by auto
  have it: "(?st ^^ (b - Suc a)) ?th = (?st ^^ (b - a)) theta"
    using ab by (metis Suc_diff_Suc funpow_Suc_right o_apply)
  have "ch' ! i = (if a \<le> i \<and> i < b
               then spec_cost (rows X) y ((?st ^^ Suc (i - a)) theta)
               else ch ! i)" if i: "i < length ch" for i
  proof (cases "i = a")
    case True
    with nth[OF i] i ab show ?thesis by simp
  next
    case False
    have "(?st ^^ Suc (i - Suc a)) ?th = (?st ^^ Suc (i - a)) theta" if "Suc a \<le> i"
      using that by (metis Suc_diff_le diff_Suc_Suc funpow_Suc_right o_apply)
    with nth[OF i] False show ?thesis by auto
  qed
  with run len it body upt show ?case by (simp add: bind_def)
qed

lemma gradient_descent_spec:
  assumes "rectangular F" "length y = shape0 F" "0 < shape0 F" "0 \<le> k"
  shows "gradient_descent F y alpha k
         = Inr (spec_theta F y alpha (nat k),
                map (\<lambda>i. spec_cost (design F) y (spec_theta F y alpha (Suc i))) [0..<nat k])"
proof -
  let ?X = "\<lparr>shape0 = shape0 F, shape1 = Suc (shape1 F), rows = design F\<rparr>"
  let ?z = "replicate (Suc (shape1 F)) (0::real)"
  let ?st = "spec_step (design F) y alpha"
  have cs: "column_stack (np_ones (shape0 F)) F = Inr ?X"
    by (rule column_stack_ones[OF assms(1)])
  have rX: "rectangular ?X"
    by (rule rectangular_design[OF assms(1)])
  obtain ch' where
    run: "gd_loop ?X y alpha (length y) [0..<nat k] (?z, replicate (nat k) 0)
            = Inr ((?st ^^ (nat k - 0)) ?z, ch')"
    and len: "length ch' = length (replicate (nat k) (0::real))"
    and nth: "\<forall>i<length (replicate (nat k) (0::real)). ch' ! i =
              (if 0 \<le> i \<and> i < nat k
               then spec_cost (rows ?X) y ((spec_step (rows ?X) y alpha ^^ Suc (i - 0)) ?z)
               else replicate (nat k) 0 ! i)"
    using gd_loop_spec[of ?X y ?z "nat k - 0" "nat k" 0 "replicate (nat k) 0" alpha] rX assms
    by auto
  have "ch' = map (\<lambda>i. spec_cost (design F) y ((?st ^^ Suc i) ?z)) [0..<nat k]"
    using len nth by (intro nth_equalityI) simp_all
  with run cs assms(4) show ?thesis
    by (simp add: gradient_descent_def np_zeros_def bind_def Let_def spec_theta_def)
qed

lemma gradient_descent_zero_iterations:
  "gradient_descent F y alpha 0 = Inr (replicate (Suc (shape1 F)) 0, [])"
  by (simp add: gradient_descent_def np_zeros_def bind_def Let_def column_stack_def np_ones_def)

section \<open>An empty target vector\<close>

lemma compute_cost_no_samples:
  "shape1 X = length theta \<Longrightarrow> compute_cost X [] theta = Inl ZeroDivisionError"
  by (simp add: compute_cost_def dot_mv_def bind_def py_recip_def)

lemma gradient_descent_no_samples:
  assumes "1 \<le> k"
  shows "gradient_descent F [] alpha k = Inl ZeroDivisionError"
proof -
  from assms have "[0..<nat k] = 0 # [1..<nat k]"
    by (simp add: upt_conv_Cons)
  with assms show ?thesis
    by (simp add: gradient_descent_def Let_def bind_def np_zeros_def column_stack_def
        np_ones_def gd_body_def py_recip_def)
qed

section \<open>Calls on the store\<close>







lemma regression_with_inv:
  "multiple_linear_regression X y = multiple_linear_regression_with inv X y"
  by (simp add: multiple_linear_regression_def multiple_linear_regression_with_def)



section \<open>The claims\<close>

lemma example_rectangular: "rectangular (array2 [[0, 2], [2, 3]])"
  by (simp add: rectangular_def array2_def)

lemma example_shape:
  "shape0 (array2 [[0, 2], [2, 3]]) = 2" "shape1 (array2 [[0, 2], [2, 3]]) = 2"
  by (simp_all add: array2_def)

text \<open>
  C1. For a rectangular feature matrix with \<open>m \<ge> 1\<close> rows, a target vector of length \<open>m\<close>
  and every index \<open>i\<close> below the number of iterations, the entry \<open>i\<close> of the cost history
  that \<open>gradient_descent\<close> returns is the cost \<open>(1/(2m)) \<Sum> (X\<theta> - y)\<^sup>2\<close> at the
  coefficients obtained after the update of step \<open>i\<close>, that is at the step applied to the
  coefficients in effect when step \<open>i\<close> starts; it is what \<open>compute_cost\<close> returns there.
\<close>

theorem cost_history_records_post_update_cost:
  assumes "rectangular F" "length y = shape0 F" "0 < shape0 F" "0 \<le> k" "i < nat k"
  shows "\<exists>theta ch. gradient_descent F y alpha k = Inr (theta, ch) \<and>
           ch ! i = spec_cost (design F) y
                      (spec_step (design F) y alpha (spec_theta F y alpha i)) \<and>
           compute_cost \<lparr>shape0 = shape0 F, shape1 = Suc (shape1 F), rows = design F\<rparr> y
               (spec_step (design F) y alpha (spec_theta F y alpha i)) = Inr (ch ! i)"
proof -
  let ?X = "\<lparr>shape0 = shape0 F, shape1 = Suc (shape1 F), rows = design F\<rparr>"
  let ?th = "spec_step (design F) y alpha (spec_theta F y alpha i)"
  have th: "spec_theta F y alpha (Suc i) = ?th"
    by (simp add: spec_theta_def)
  have "length ?th = Suc (shape1 F)"
    by (simp add: spec_theta_def)
  then have "compute_cost ?X y ?th = Inr (spec_cost (rows ?X) y ?th)"
    using assms rectangular_design[OF assms(1)] by (intro compute_cost_spec) simp_all
  then show ?thesis
    using gradient_descent_spec[OF assms(1-4), of alpha] assms(5) th by simp
qed

theorem cost_history_records_post_update_cost_witness:
  "rectangular (array2 [[0, 2], [2, 3]]) \<and>
   length [3, 4 :: real] = shape0 (array2 [[0, 2], [2, 3]]) \<and>
   0 < shape0 (array2 [[0, 2], [2, 3]]) \<and> (0::int) \<le> 2 \<and> (1::nat) < nat 2 \<and>
   (\<exists>theta ch. gradient_descent (array2 [[0, 2], [2, 3]]) [3, 4] (1/2) 2 = Inr (theta, ch) \<and>
      ch ! 1 = spec_cost (design (array2 [[0, 2], [2, 3]])) [3, 4]
                 (spec_step (design (array2 [[0, 2], [2, 3]])) [3, 4] (1/2)
                    (spec_theta (array2 [[0, 2], [2, 3]]) [3, 4] (1/2) 1)) \<and>
      compute_cost \<lparr>shape0 = shape0 (array2 [[0, 2], [2, 3]]),
                     shape1 = Suc (shape1 (array2 [[0, 2], [2, 3]])),
                     rows = design (array2 [[0, 2], [2, 3]])\<rparr> [3, 4]
          (spec_step (design (array2 [[0, 2], [2, 3]])) [3, 4] (1/2)
             (spec_theta (array2 [[0, 2], [2, 3]]) [3, 4] (1/2) 1)) = Inr (ch ! 1))"
proof -
  have l: "length [3, 4 :: real] = shape0 (array2 [[0, 2], [2, 3]])"
    by (simp add: example_shape)
  have p: "0 < shape0 (array2 [[0, 2], [2, 3]])"
    by (simp add: example_shape)
  have k: "(0::int) \<le> 2" and i: "(1::nat) < nat 2"
    by simp_all
  from cost_history_records_post_update_cost[OF example_rectangular l p k i, of "1/2"]
  show ?thesis
    using example_rectangular l p by simp
qed

text \<open>
  C2. On a feature matrix with \<open>m \<ge> 1\<close> rows and \<open>n\<close> columns and a target vector of
  length \<open>m\<close>, \<open>gradient_descent\<close> returns the coefficients reached from the zero vector of
  length \<open>n + 1\<close> by exactly \<open>num_iterations\<close> applications of the full-batch update
  \<open>\<theta> \<leftarrow> \<theta> - \<alpha> (1/m) X\<^sup>T (X\<theta> - y)\<close>, whose sums range over all \<open>m\<close> rows of the
  design matrix: no step is skipped, none is added, and no row is left out.
\<close>

theorem gradient_descent_runs_all_steps:
  assumes "rectangular F" "length y = shape0 F" "0 < shape0 F" "0 \<le> k"
  shows "\<exists>ch. gradient_descent F y alpha k
               = Inr ((spec_step (design F) y alpha ^^ nat k) (replicate (Suc (shape1 F)) 0), ch)"
  using gradient_descent_spec[OF assms, of alpha] by (simp add: spec_theta_def)

theorem gradient_descent_runs_all_steps_witness:
  "rectangular (array2 [[0, 2], [2, 3]]) \<and> length [3, 4 :: real] = shape0 (array2 [[0, 2], [2, 3]])
   \<and> 0 < shape0 (array2 [[0, 2], [2, 3]]) \<and> (0::int) \<le> 2 \<and>
   (\<exists>ch. gradient_descent (array2 [[0, 2], [2, 3]]) [3, 4] (1/2) 2
          = Inr ((spec_step (design (array2 [[0, 2], [2, 3]])) [3, 4] (1/2) ^^ nat 2)
                   (replicate (Suc (shape1 (array2 [[0, 2], [2, 3]]))) 0), ch))"
proof -
  have r: "rectangular (array2 [[0, 2], [2, 3]])"
    by (simp add: rectangular_def array2_def)
  have l: "length [3, 4 :: real] = shape0 (array2 [[0, 2], [2, 3]])"
    by (simp add: array2_def)
  have p: "0 < shape0 (array2 [[0, 2], [2, 3]])"
    by (simp add: array2_def)
  show ?thesis
    using gradient_descent_runs_all_steps[OF r l p, of 2 "1/2"] r l p by simp
qed

text \<open>
  C4. On the notebook's example the normal equation returns exactly \<open>[-3, -1, 3]\<close>, which
  is within any tolerance of it, and the prediction for the two new rows with these
  coefficients is exactly \<open>[2, 10]\<close>.
\<close>

theorem normal_equation_example:
  "multiple_linear_regression (array2 [[0, 2], [2, 3], [3, 4], [4, 5]]) [3, 4, 6, 8]
     = Inr [- 3, - 1, 3] \<and>
   predict (array2 [[1, 2], [2, 5]]) [- 3, - 1, 3] = Inr [2, 10]"
  by code_simp




text \<open>
  C6 (as the code has it). The two lines that build the design matrix check nothing and
  never fail: on every rectangular array, one with no rows or no columns included, they
  return a new array with the same rows, one more column, and row \<open>i\<close> equal to \<open>1.0\<close>
  followed by row \<open>i\<close> of the input.
\<close>

theorem augment_total:
  "rectangular A \<Longrightarrow>
   augment A = Inr \<lparr>shape0 = shape0 A, shape1 = shape1 A + 1,
                    rows = map (\<lambda>r. 1 # r) (rows A)\<rparr>"
  using column_stack_ones[of A] by (simp add: augment_def design_def)

theorem augment_total_witness:
  "rectangular (array2 [[0, 2], [2, 3]]) \<and>
   augment (array2 [[0, 2], [2, 3]])
     = Inr \<lparr>shape0 = shape0 (array2 [[0, 2], [2, 3]]),
            shape1 = shape1 (array2 [[0, 2], [2, 3]]) + 1,
            rows = map (\<lambda>r. 1 # r) (rows (array2 [[0, 2], [2, 3]]))\<rparr>"
  using augment_total[OF example_rectangular] example_rectangular by simp

text \<open>
  C6 as stated fails: an array with two rows and no column is not refused; the result is
  the column of ones.
\<close>

theorem augment_zero_columns_counterexample:
  "rectangular \<lparr>shape0 = 2, shape1 = 0, rows = [[], []]\<rparr> \<and>
   augment \<lparr>shape0 = 2, shape1 = 0, rows = [[], []]\<rparr>
     = Inr \<lparr>shape0 = 2, shape1 = 1, rows = [[1], [1]]\<rparr>"
  by (simp add: rectangular_def augment_def column_stack_def np_ones_def numeral_2_eq_2)

text \<open>
  C7. On a rectangular feature matrix with \<open>m \<ge> 1\<close> rows, a target vector of length \<open>m\<close>
  and \<open>num_iterations \<ge> 0\<close>, \<open>gradient_descent\<close> returns a cost history with exactly
  \<open>num_iterations\<close> entries, next to \<open>n + 1\<close> coefficients; with \<open>num_iterations = 0\<close> it
  returns \<open>n + 1\<close> zeros and the empty history.
\<close>

theorem cost_history_length:
  assumes "rectangular F" "length y = shape0 F" "0 < shape0 F" "0 \<le> k"
  shows "(\<exists>theta ch. gradient_descent F y alpha k = Inr (theta, ch) \<and>
            int (length ch) = k \<and> length theta = shape1 F + 1) \<and>
         gradient_descent F y alpha 0 = Inr (replicate (shape1 F + 1) 0, [])"
  using gradient_descent_spec[OF assms, of alpha] assms(4)
    gradient_descent_zero_iterations[of F y alpha]
  by (simp add: spec_theta_def)

theorem cost_history_length_witness:
  "rectangular (array2 [[0, 2], [2, 3]]) \<and>
   length [3, 4 :: real] = shape0 (array2 [[0, 2], [2, 3]]) \<and>
   0 < shape0 (array2 [[0, 2], [2, 3]]) \<and> (0::int) \<le> 2 \<and>
   (\<exists>theta ch. gradient_descent (array2 [[0, 2], [2, 3]]) [3, 4] (1/2) 2 = Inr (theta, ch) \<and>
      int (length ch) = 2 \<and> length theta = shape1 (array2 [[0, 2], [2, 3]]) + 1) \<and>
   gradient_descent (array2 [[0, 2], [2, 3]]) [3, 4] (1/2) 0
     = Inr (replicate (shape1 (array2 [[0, 2], [2, 3]]) + 1) 0, [])"
proof -
  have l: "length [3, 4 :: real] = shape0 (array2 [[0, 2], [2, 3]])"
    by (simp add: example_shape)
  have p: "0 < shape0 (array2 [[0, 2], [2, 3]])"
    by (simp add: example_shape)
  have k: "(0::int) \<le> 2"
    by simp
  from cost_history_length[OF example_rectangular l p k, of "1/2"]
  show ?thesis
    using example_rectangular l p by simp
qed

text \<open>
  C9. The two definitions of \<open>predict\<close> return the same result on every input, and on a
  rectangular feature matrix with coefficients of length (number of columns) + 1 that
  result is the product of the design matrix with the coefficients.
\<close>

theorem predict_definitions_agree:
  "predict F theta = predict_gd F theta \<and>
   (rectangular F \<and> length theta = shape1 F + 1 \<longrightarrow>
      predict F theta = Inr (map (spec_prediction (design F) theta) [0..<shape0 F]))"
proof -
  have "predict F theta = Inr (map (spec_prediction (design F) theta) [0..<shape0 F])"
    if "rectangular F" "length theta = shape1 F + 1"
    using that dot_mv_spec[OF rectangular_design[OF that(1)], of theta]
    by (simp add: predict_def column_stack_ones bind_def)
  then show ?thesis
    by (simp add: predict_def predict_gd_def)
qed

theorem predict_definitions_agree_witness:
  "predict (array2 [[0, 2], [2, 3]]) [1, 2, 3] = predict_gd (array2 [[0, 2], [2, 3]]) [1, 2, 3] \<and>
   rectangular (array2 [[0, 2], [2, 3]]) \<and>
   length [1, 2, 3 :: real] = shape1 (array2 [[0, 2], [2, 3]]) + 1 \<and>
   predict (array2 [[0, 2], [2, 3]]) [1, 2, 3]
     = Inr (map (spec_prediction (design (array2 [[0, 2], [2, 3]])) [1, 2, 3])
              [0..<shape0 (array2 [[0, 2], [2, 3]])])"
proof -
  have l: "length [1, 2, 3 :: real] = shape1 (array2 [[0, 2], [2, 3]]) + 1"
    by (simp add: example_shape)
  from predict_definitions_agree[of "array2 [[0, 2], [2, 3]]" "[1, 2, 3]"]
  show ?thesis
    using example_rectangular l by blast
qed

text \<open>
  C10 (as the code has it). With an empty target vector the division by \<open>m\<close> is a
  division by zero where it is reached: \<open>compute_cost\<close> raises \<open>ZeroDivisionError\<close> once
  its product \<open>X\<theta>\<close> is formed, that is when \<open>\<theta>\<close> has as many entries as \<open>X\<close> has columns,
  and numpy's \<open>ValueError\<close> for the shapes before that otherwise; \<open>gradient_descent\<close> raises
  \<open>ZeroDivisionError\<close> in its first step when it runs at least one iteration, and with no
  iteration it divides nothing and returns the zero coefficients and the empty history.
\<close>

theorem zero_samples_divide_by_zero:
  "(shape1 X = length theta \<longrightarrow> compute_cost X [] theta = Inl ZeroDivisionError) \<and>
   (shape1 X' \<noteq> length theta' \<longrightarrow> compute_cost X' [] theta' = Inl ValueError) \<and>
   (1 \<le> k \<longrightarrow> gradient_descent F [] alpha k = Inl ZeroDivisionError) \<and>
   gradient_descent F [] alpha 0 = Inr (replicate (shape1 F + 1) 0, [])"
proof -
  have "compute_cost X' [] theta' = Inl ValueError" if "shape1 X' \<noteq> length theta'"
    using that by (simp add: compute_cost_def dot_mv_def bind_def)
  then show ?thesis
    using compute_cost_no_samples[of X theta] gradient_descent_no_samples[of k F alpha]
      gradient_descent_zero_iterations[of F "[]" alpha]
    by simp
qed

theorem zero_samples_divide_by_zero_witness:
  "shape1 \<lparr>shape0 = 0, shape1 = 3, rows = []\<rparr> = length [0, 1, 1 :: real] \<and>
   compute_cost \<lparr>shape0 = 0, shape1 = 3, rows = []\<rparr> [] [0, 1, 1] = Inl ZeroDivisionError \<and>
   shape1 \<lparr>shape0 = 0, shape1 = 3, rows = []\<rparr> \<noteq> length [0, 1 :: real] \<and>
   compute_cost \<lparr>shape0 = 0, shape1 = 3, rows = []\<rparr> [] [0, 1] = Inl ValueError \<and>
   (1::int) \<le> 2 \<and>
   gradient_descent \<lparr>shape0 = 0, shape1 = 2, rows = []\<rparr> [] (1/2) 2 = Inl ZeroDivisionError \<and>
   gradient_descent \<lparr>shape0 = 0, shape1 = 2, rows = []\<rparr> [] (1/2) 0
     = Inr (replicate (shape1 \<lparr>shape0 = 0, shape1 = 2, rows = []\<rparr> + 1) 0, [])"
  using zero_samples_divide_by_zero
          [of "\<lparr>shape0 = 0, shape1 = 3, rows = []\<rparr>" "[0, 1, 1]"
              "\<lparr>shape0 = 0, shape1 = 3, rows = []\<rparr>" "[0, 1]" 2
              "\<lparr>shape0 = 0, shape1 = 2, rows = []\<rparr>" "1/2"]
  by simp

text \<open>
  C10 as stated fails on both counts for no sample at all: \<open>gradient_descent\<close> asked for no
  iteration returns normally, and \<open>compute_cost\<close> with coefficients of the wrong length
  raises numpy's \<open>ValueError\<close> before it divides.
\<close>

theorem zero_samples_without_division_counterexample:
  "gradient_descent \<lparr>shape0 = 0, shape1 = 2, rows = []\<rparr> [] (1/2) 0 = Inr ([0, 0, 0], []) \<and>
   compute_cost \<lparr>shape0 = 0, shape1 = 3, rows = []\<rparr> [] [0, 1] = Inl ValueError"
  by code_simp

end
